theory Spec2Isabelle
  imports Complex_Main "HOL-Library.AList"
begin

text \<open>
  A model of \<^verbatim>\<open>task1_image_metadata_analysis/code.py\<close>: the conversion of GPS
  coordinates from degrees, minutes and seconds to decimal degrees, the extraction of
  EXIF metadata, the optional OCR pass, the text report and the command-line entry
  point. Exceptions are values of a sum type, dictionaries are association lists in
  insertion order, and the libraries the program calls are parameters.
\<close>

section \<open>Python values and built-ins used by the program\<close>

text \<open>
  The values an EXIF tag can hold when it reaches the program: \<open>None\<close>, booleans,
  integers, floats, strings, objects exposing \<open>numerator\<close> and \<open>denominator\<close>
  (\<open>fractions.Fraction\<close>, PIL's \<open>IFDRational\<close>), tuples, lists, and IFD dictionaries
  keyed by integer tag ids (in insertion order, keys distinct).

  Floats are idealised as exact reals: rounding, infinities, NaN and the sign of zero
  are not represented, and \<open>float()\<close> of an integer never overflows. Strings are lists
  of 8-bit characters, so a \<open>str\<close> is restricted to code points below 256.
\<close>

datatype pyval =
    PNone
  | PBool bool
  | PInt int
  | PFloat real
  | PStr string
  | PRational int int
  | PTuple "pyval list"
  | PList "pyval list"
  | PDict "(int \<times> pyval) list"

text \<open>
  Exceptions. \<open>LibraryError msg\<close> is an exception raised inside an external library
  (image decoder, JSON encoder), with \<open>str(e) = msg\<close>; \<open>SystemExit n\<close> is what
  \<open>sys.exit(n)\<close> raises.
\<close>

datatype exn =
    TypeError
  | ValueError
  | KeyError
  | IndexError
  | ZeroDivisionError
  | FileNotFoundError
  | SystemExit nat
  | LibraryError string

text \<open>Truth value of an object (\<open>bool(x)\<close>, as used by \<open>not\<close>, \<open>and\<close>, \<open>or\<close>, \<open>if\<close>).
  An \<open>IFDRational\<close> with denominator zero holds NaN, which is true.\<close>

fun py_truthy :: "pyval \<Rightarrow> bool" where
  "py_truthy PNone = False"
| "py_truthy (PBool b) = b"
| "py_truthy (PInt n) = (n \<noteq> 0)"
| "py_truthy (PFloat r) = (r \<noteq> 0)"
| "py_truthy (PStr s) = (s \<noteq> [])"
| "py_truthy (PRational n d) = (n \<noteq> 0 \<or> d = 0)"
| "py_truthy (PTuple xs) = (xs \<noteq> [])"
| "py_truthy (PList xs) = (xs \<noteq> [])"
| "py_truthy (PDict kvs) = (kvs \<noteq> [])"

text \<open>\<open>len(x)\<close>: a TypeError on objects without a length.\<close>

fun py_len :: "pyval \<Rightarrow> exn + nat" where
  "py_len (PStr s) = Inr (length s)"
| "py_len (PTuple xs) = Inr (length xs)"
| "py_len (PList xs) = Inr (length xs)"
| "py_len (PDict kvs) = Inr (length kvs)"
| "py_len _ = Inl TypeError"

text \<open>\<open>x[i]\<close> for a non-negative index \<open>i\<close>: IndexError past the end of a sequence,
  KeyError for a dictionary without the key \<open>i\<close>, TypeError otherwise.\<close>

fun py_getitem :: "pyval \<Rightarrow> nat \<Rightarrow> exn + pyval" where
  "py_getitem (PStr s) i = (if i < length s then Inr (PStr [s ! i]) else Inl IndexError)"
| "py_getitem (PTuple xs) i = (if i < length xs then Inr (xs ! i) else Inl IndexError)"
| "py_getitem (PList xs) i = (if i < length xs then Inr (xs ! i) else Inl IndexError)"
| "py_getitem (PDict kvs) i =
     (case map_of kvs (int i) of None \<Rightarrow> Inl KeyError | Some v \<Rightarrow> Inr v)"
| "py_getitem _ i = Inl TypeError"

text \<open>Float division \<open>a / b\<close>: Python raises where HOL would return \<open>0\<close>.\<close>

definition py_truediv :: "real \<Rightarrow> real \<Rightarrow> exn + real" where
  "py_truediv a b = (if b = 0 then Inl ZeroDivisionError else Inr (a / b))"

text \<open>\<open>float(x)\<close>. The parser of numeric strings is the runtime's and is a parameter
  (\<open>None\<close> for a string it rejects with ValueError). A rational object converts through
  \<open>numbers.Rational.__float__\<close>, numerator over denominator.\<close>

fun py_float :: "(string \<Rightarrow> real option) \<Rightarrow> pyval \<Rightarrow> exn + real" where
  "py_float p (PBool b) = Inr (if b then 1 else 0)"
| "py_float p (PInt n) = Inr (of_int n)"
| "py_float p (PFloat r) = Inr r"
| "py_float p (PStr s) = (case p s of None \<Rightarrow> Inl ValueError | Some r \<Rightarrow> Inr r)"
| "py_float p (PRational n d) = py_truediv (of_int n) (of_int d)"
| "py_float p _ = Inl TypeError"

text \<open>The attributes \<open>numerator\<close> and \<open>denominator\<close>, for the objects that have both
  (\<open>int\<close> and \<open>bool\<close> do: an integer is its own numerator over \<open>1\<close>).\<close>

fun numerator_denominator :: "pyval \<Rightarrow> (pyval \<times> pyval) option" where
  "numerator_denominator (PBool b) = Some (PInt (if b then 1 else 0), PInt 1)"
| "numerator_denominator (PInt n) = Some (PInt n, PInt 1)"
| "numerator_denominator (PRational n d) = Some (PInt n, PInt d)"
| "numerator_denominator _ = None"

section \<open>Coordinate normalizer\<close>

text \<open>The body of the \<open>try\<close> block of \<open>_rational_to_float\<close>.\<close>

definition rational_to_float_try :: "(string \<Rightarrow> real option) \<Rightarrow> pyval \<Rightarrow> exn + real" where
  "rational_to_float_try p x =
     (case numerator_denominator x of
        Some (n, d) \<Rightarrow>
          (case py_float p n of Inl e \<Rightarrow> Inl e
           | Inr a \<Rightarrow> (case py_float p d of Inl e \<Rightarrow> Inl e | Inr b \<Rightarrow> py_truediv a b))
      | None \<Rightarrow>
          (case x of
             PTuple [num, den] \<Rightarrow>
               (if py_truthy den
                then (case py_float p num of Inl e \<Rightarrow> Inl e
                      | Inr a \<Rightarrow> (case py_float p den of Inl e \<Rightarrow> Inl e
                                  | Inr b \<Rightarrow> py_truediv a b))
                else Inr 0)
           | _ \<Rightarrow> py_float p x))"

text \<open>\<open>_rational_to_float\<close>: any exception of the body becomes \<open>None\<close>.\<close>

definition rational_to_float :: "(string \<Rightarrow> real option) \<Rightarrow> pyval \<Rightarrow> real option" where
  "rational_to_float p x =
     (case rational_to_float_try p x of Inl e \<Rightarrow> None | Inr v \<Rightarrow> Some v)"

text \<open>\<open>v or 0.0\<close> for \<open>v\<close> a float or \<open>None\<close>.\<close>

definition or_zero :: "real option \<Rightarrow> real" where
  "or_zero v = (case v of None \<Rightarrow> 0 | Some r \<Rightarrow> (if r \<noteq> 0 then r else 0))"

text \<open>\<open>_dms_to_decimal\<close>. The length test and the three subscripts are outside any
  \<open>try\<close>, so their exceptions propagate.\<close>

definition dms_to_decimal ::
  "(string \<Rightarrow> real option) \<Rightarrow> pyval \<Rightarrow> pyval \<Rightarrow> exn + real option" where
  "dms_to_decimal p dms ref =
     (if \<not> py_truthy dms then Inr None
      else (case py_len dms of
        Inl e \<Rightarrow> Inl e
      | Inr n \<Rightarrow>
         (if n \<noteq> 3 then Inr None
          else (case py_getitem dms 0 of
            Inl e \<Rightarrow> Inl e
          | Inr x0 \<Rightarrow>
             (let d = or_zero (rational_to_float p x0) in
              (case py_getitem dms 1 of
                Inl e \<Rightarrow> Inl e
              | Inr x1 \<Rightarrow>
                 (let m = or_zero (rational_to_float p x1) in
                  (case py_getitem dms 2 of
                    Inl e \<Rightarrow> Inl e
                  | Inr x2 \<Rightarrow>
                     (let s = or_zero (rational_to_float p x2);
                          dec = d + (m / 60) + (s / 3600)
                      in Inr (Some (if ref = PStr ''S'' \<or> ref = PStr ''W''
                                    then - dec else dec)))))))))))"

text \<open>The items of a sequence (tuple, list or string), for stating properties of
  sequences of any of the three kinds.\<close>

fun py_seq_items :: "pyval \<Rightarrow> pyval list option" where
  "py_seq_items (PTuple xs) = Some xs"
| "py_seq_items (PList xs) = Some xs"
| "py_seq_items (PStr s) = Some (map (\<lambda>c. PStr [c]) s)"
| "py_seq_items _ = None"


section \<open>Strings\<close>

text \<open>\<open>str(n)\<close> for an integer: its decimal digits, with a minus sign when negative.\<close>

fun str_nat :: "nat \<Rightarrow> string" where
  "str_nat n =
     (if n < 10 then [char_of (48 + n)]
      else str_nat (n div 10) @ [char_of (48 + n mod 10)])"

declare str_nat.simps [simp del]

definition str_int :: "int \<Rightarrow> string" where
  "str_int i = (if i < 0 then ''-'' @ str_nat (nat (- i)) else str_nat (nat i))"

text \<open>\<open>str(v)\<close>, as \<open>str()\<close> and f-strings produce it. The rendering of floats, rational
  objects and containers is the runtime's and is a parameter.\<close>

fun py_str :: "(pyval \<Rightarrow> string) \<Rightarrow> pyval \<Rightarrow> string" where
  "py_str r PNone = ''None''"
| "py_str r (PBool b) = (if b then ''True'' else ''False'')"
| "py_str r (PInt n) = str_int n"
| "py_str r (PStr s) = s"
| "py_str r v = r v"

text \<open>\<open>str.isspace\<close> on one character, for the code points below 256, and
  \<open>str.strip()\<close>, which removes leading and trailing whitespace.\<close>

definition isspace :: "char \<Rightarrow> bool" where
  "isspace c =
     (c \<in> set [CHR 0x09, CHR 0x0A, CHR 0x0B, CHR 0x0C, CHR 0x0D, CHR 0x1C, CHR 0x1D,
               CHR 0x1E, CHR 0x1F, CHR 0x20, CHR 0x85, CHR 0xA0])"

definition strip :: "string \<Rightarrow> string" where
  "strip s = rev (dropWhile isspace (rev (dropWhile isspace s)))"

text \<open>\<open>sep.join(lines)\<close>.\<close>

fun join :: "string \<Rightarrow> string list \<Rightarrow> string" where
  "join sep [] = []"
| "join sep [x] = x"
| "join sep (x # y # ys) = x @ sep @ join sep (y # ys)"

section \<open>Data model\<close>

text \<open>The decoded image handle: the attributes the program reads, and the items of
  \<open>image.getexif()\<close> (tag id and raw value, in order).\<close>

record image =
  img_format :: "string option"
  img_mode :: string
  img_width :: nat
  img_height :: nat
  getexif :: "(int \<times> pyval) list"

text \<open>The \<open>gps\<close> dictionary when it is not empty; the empty dictionary \<open>{}\<close> is
  \<open>None\<close> of \<open>gps_parsed option\<close>.\<close>

record gps_parsed =
  raw :: "(string \<times> string) list"
  latitude_decimal :: "real option"
  longitude_decimal :: "real option"

text \<open>The dictionary \<open>extract_exif\<close> returns; \<open>info.update(exif_data)\<close> copies its two
  keys into the result, which is modelled as the record extended.\<close>

record exif_data =
  exif :: "(string \<times> pyval) list"
  gps :: "gps_parsed option"

record size_info =
  width :: nat
  height :: nat

record file_info =
  file_name :: string
  file_path :: string
  file_format :: "string option"
  file_mode :: string
  file_size :: size_info

record summary_info =
  camera_make :: pyval
  camera_model :: pyval
  datetime_original :: pyval
  has_gps :: bool

record ocr_result =
  ocr_text :: "string option"
  ocr_language :: "string option"
  ocr_note :: "string option"

text \<open>The result dictionary; \<open>ocr = None\<close> when the key \<open>"ocr"\<close> is not in it.\<close>

record info = exif_data +
  file_rec :: file_info
  summary :: summary_info
  ocr :: "ocr_result option"

text \<open>
  What the program takes from its libraries and its runtime. A library call returns
  \<open>Inl msg\<close> when it raises an exception \<open>e\<close> with \<open>str(e) = msg\<close>.
  \<^item> \<open>EXIF_TAGS\<close>, \<open>GPS_TAGS\<close>: the tables \<open>ExifTags.TAGS\<close> and \<open>ExifTags.GPSTAGS\<close>;
  \<^item> \<open>float_of_str\<close>: \<open>float()\<close> on a string; \<open>repr_value\<close>: \<open>str()\<close> of floats, rational
    objects and containers;
  \<^item> \<open>basename\<close>, \<open>abspath\<close>: \<open>os.path.basename\<close> and \<open>os.path.abspath\<close>;
  \<^item> \<open>Image_open\<close>: the decoder, on the contents of the file;
  \<^item> \<open>exif_transpose\<close>: \<open>ImageOps.exif_transpose\<close>;
  \<^item> \<open>pytesseract\<close>: \<open>None\<close> when the import failed, otherwise the module's
    \<open>image_to_string\<close>;
  \<^item> \<open>detect\<close>: \<open>None\<close> when the import of \<open>langdetect\<close> failed, otherwise its
    \<open>detect\<close>;
  \<^item> \<open>json_dumps\<close>: \<open>json.dumps(data, indent=2, ensure_ascii=False)\<close>.
\<close>

record env =
  EXIF_TAGS :: "int \<rightharpoonup> string"
  GPS_TAGS :: "int \<rightharpoonup> string"
  float_of_str :: "string \<Rightarrow> real option"
  repr_value :: "pyval \<Rightarrow> string"
  basename :: "string \<Rightarrow> string"
  abspath :: "string \<Rightarrow> string"
  Image_open :: "string \<Rightarrow> string + image"
  exif_transpose :: "image \<Rightarrow> string + image"
  pytesseract :: "(image \<Rightarrow> string + string) option"
  detect :: "(string \<Rightarrow> string + string) option"
  json_dumps :: "info \<Rightarrow> string + string"

text \<open>The world outside the process: the files (path to contents) and the two output
  streams, as the lists of what was printed.\<close>

record world =
  files :: "string \<rightharpoonup> string"
  stdout :: "string list"
  stderr :: "string list"

text \<open>The parsed command line.\<close>

record args =
  image_arg :: string
  ocr_arg :: bool
  out_arg :: string

section \<open>Metadata extractor\<close>

text \<open>\<open>d.get(key)\<close> on a dictionary with string keys: \<open>None\<close> when the key is missing.\<close>

definition py_get :: "(string \<times> pyval) list \<Rightarrow> string \<Rightarrow> pyval" where
  "py_get d k = (case map_of d k of None \<Rightarrow> PNone | Some v \<Rightarrow> v)"

text \<open>\<open>TAGS.get(k, str(k))\<close>.\<close>

definition tag_name :: "(int \<rightharpoonup> string) \<Rightarrow> int \<Rightarrow> string" where
  "tag_name tags k = (case tags k of None \<Rightarrow> str_int k | Some n \<Rightarrow> n)"

text \<open>The dictionary built from the items by \<open>named[TAGS.get(k, str(k))] = v\<close>, in
  order: a name met again keeps its place and takes the later value. Both the loop
  over the EXIF items and the comprehension over the GPS items build it.\<close>

definition name_tags :: "(int \<rightharpoonup> string) \<Rightarrow> (int \<times> pyval) list \<Rightarrow> (string \<times> pyval) list" where
  "name_tags tags items = fold (\<lambda>(k, v) named. AList.update (tag_name tags k) v named) items []"

definition extract_exif :: "env \<Rightarrow> image \<Rightarrow> exn + exif_data" where
  "extract_exif E im =
     (let exif_raw = getexif im in
      if exif_raw = [] then Inr \<lparr>exif = [], gps = None\<rparr>
      else
       (let exif_named = name_tags (EXIF_TAGS E) exif_raw;
            gps_info = py_get exif_named ''GPSInfo''
        in (case gps_info of
              PDict gps_items \<Rightarrow>
               (let gps_named = name_tags (GPS_TAGS E) gps_items;
                    lat_ref = py_get gps_named ''GPSLatitudeRef'';
                    lon_ref = py_get gps_named ''GPSLongitudeRef'';
                    lat_raw = py_get gps_named ''GPSLatitude'';
                    lon_raw = py_get gps_named ''GPSLongitude''
                in (case (if py_truthy lat_raw \<and> py_truthy lat_ref
                          then dms_to_decimal (float_of_str E) lat_raw lat_ref
                          else Inr None) of
                      Inl e \<Rightarrow> Inl e
                    | Inr lat \<Rightarrow>
                       (case (if py_truthy lon_raw \<and> py_truthy lon_ref
                              then dms_to_decimal (float_of_str E) lon_raw lon_ref
                              else Inr None) of
                          Inl e \<Rightarrow> Inl e
                        | Inr lon \<Rightarrow>
                            Inr \<lparr>exif = exif_named,
                                 gps = Some \<lparr>raw = map (\<lambda>(k, v). (k, py_str (repr_value E) v)) gps_named,
                                             latitude_decimal = lat,
                                             longitude_decimal = lon\<rparr>\<rparr>)))
            | _ \<Rightarrow> Inr \<lparr>exif = exif_named, gps = None\<rparr>)))"

section \<open>OCR adapter\<close>

definition try_ocr :: "env \<Rightarrow> image \<Rightarrow> ocr_result" where
  "try_ocr E im =
     (case pytesseract E of
        None \<Rightarrow>
          \<lparr>ocr_text = None, ocr_language = None,
           ocr_note = Some ''pytesseract not installed; skip OCR.''\<rparr>
      | Some image_to_string \<Rightarrow>
         (case exif_transpose E im of
            Inl e \<Rightarrow>
              \<lparr>ocr_text = None, ocr_language = None, ocr_note = Some (''OCR failed: '' @ e)\<rparr>
          | Inr img \<Rightarrow>
             (case image_to_string img of
                Inl e \<Rightarrow>
                  \<lparr>ocr_text = None, ocr_language = None, ocr_note = Some (''OCR failed: '' @ e)\<rparr>
              | Inr text0 \<Rightarrow>
                 (let text = strip text0;
                      result = \<lparr>ocr_text = (if text \<noteq> [] then Some text else None),
                                ocr_language = None, ocr_note = None\<rparr>
                  in if text \<noteq> [] \<and> detect E \<noteq> None then
                       (case detect E of
                          Some det \<Rightarrow>
                           (case det text of
                              Inr lang \<Rightarrow> result\<lparr>ocr_language := Some lang\<rparr>
                            | Inl e \<Rightarrow> result\<lparr>ocr_language := None\<rparr>)
                        | None \<Rightarrow> result)
                     else if text \<noteq> [] \<and> detect E = None then
                       result\<lparr>ocr_note := Some ''langdetect not installed; language not detected.''\<rparr>
                     else result))))"

section \<open>Analysis, report and entry point\<close>

text \<open>\<open>d.get("gps", {}).get(key)\<close> for the two decimal keys.\<close>

definition gps_get :: "(gps_parsed \<Rightarrow> real option) \<Rightarrow> gps_parsed option \<Rightarrow> real option" where
  "gps_get field g = (case g of None \<Rightarrow> None | Some r \<Rightarrow> field r)"

text \<open>\<open>a or b\<close> on values.\<close>

definition py_or :: "pyval \<Rightarrow> pyval \<Rightarrow> pyval" where
  "py_or a b = (if py_truthy a then a else b)"

definition analyze_image :: "env \<Rightarrow> world \<Rightarrow> string \<Rightarrow> bool \<Rightarrow> exn + info" where
  "analyze_image E w path do_ocr =
     (case files w path of
        None \<Rightarrow> Inl FileNotFoundError
      | Some contents \<Rightarrow>
         (case Image_open E contents of
            Inl e \<Rightarrow> Inl (LibraryError e)
          | Inr img \<Rightarrow>
             (case extract_exif E img of
                Inl e \<Rightarrow> Inl e
              | Inr exif_data \<Rightarrow>
                 (let exif = exif exif_data
                  in Inr \<lparr>exif = exif,
                          gps = gps exif_data,
                          file_rec = \<lparr>file_name = basename E path,
                                  file_path = abspath E path,
                                  file_format = img_format img,
                                  file_mode = img_mode img,
                                  file_size = \<lparr>width = img_width img, height = img_height img\<rparr>\<rparr>,
                          summary =
                            \<lparr>camera_make = py_get exif ''Make'',
                             camera_model = py_get exif ''Model'',
                             datetime_original =
                               py_or (py_get exif ''DateTimeOriginal'') (py_get exif ''DateTime''),
                             has_gps =
                               (gps_get latitude_decimal (gps exif_data) \<noteq> None \<and>
                                gps_get longitude_decimal (gps exif_data) \<noteq> None)\<rparr>,
                          ocr = (if do_ocr then Some (try_ocr E img) else None)\<rparr>))))"

text \<open>An optional string and an optional float inside an f-string.\<close>

definition str_opt :: "string option \<Rightarrow> string" where
  "str_opt v = (case v of None \<Rightarrow> ''None'' | Some s \<Rightarrow> s)"

definition str_float_opt :: "env \<Rightarrow> real option \<Rightarrow> string" where
  "str_float_opt E v = (case v of None \<Rightarrow> py_str (repr_value E) PNone
                        | Some r \<Rightarrow> py_str (repr_value E) (PFloat r))"

text \<open>The list \<open>lines\<close> that \<open>write_report\<close> builds when an output path is given.\<close>

definition report_lines :: "env \<Rightarrow> info \<Rightarrow> string list" where
  "report_lines E data =
     (let f = file_rec data;
          s = summary data;
          lines0 =
            [''# Image Metadata Report: '' @ file_name f,
             '''',
             ''## File'',
             ''- Path: '' @ file_path f,
             ''- Format: '' @ str_opt (file_format f),
             ''- Mode: '' @ file_mode f,
             ''- Size: '' @ str_nat (width (file_size f)) @ ''x'' @ str_nat (height (file_size f)),
             '''',
             ''## Summary'',
             strip (''- Camera: '' @ py_str (repr_value E) (camera_make s) @ '' ''
                      @ py_str (repr_value E) (camera_model s)),
             ''- Date/Time: '' @ py_str (repr_value E) (datetime_original s),
             ''- GPS present: '' @ py_str (repr_value E) (PBool (has_gps s))];
          lines1 =
            (case gps data of
               Some g \<Rightarrow>
                 lines0 @ [''- GPS (decimal): '' @ str_float_opt E (latitude_decimal g) @ '', ''
                             @ str_float_opt E (longitude_decimal g)]
             | None \<Rightarrow> lines0)
      in (case ocr data of
            Some oc \<Rightarrow>
              lines1 @ ['''', ''## OCR'',
                        ''- Language: '' @ str_opt (ocr_language oc),
                        ''- Note: '' @ str_opt (ocr_note oc)]
                @ (case ocr_text oc of
                     Some t \<Rightarrow> (if t \<noteq> [] then ['''', ''### Extracted Text'', t] else [])
                   | None \<Rightarrow> [])
          | None \<Rightarrow> lines1))"

definition write_report :: "env \<Rightarrow> info \<Rightarrow> string option \<Rightarrow> world \<Rightarrow> (exn + unit) \<times> world" where
  "write_report E data out_path w =
     (case json_dumps E data of
        Inl e \<Rightarrow> (Inl (LibraryError e), w)
      | Inr js \<Rightarrow>
         (let w1 = w\<lparr>stdout := stdout w @ [js]\<rparr>
          in (case out_path of
                Some p \<Rightarrow>
                  (if p \<noteq> []
                   then (Inr (), w1\<lparr>files := (files w1)(p \<mapsto> join [CHR 0x0A] (report_lines E data))\<rparr>)
                   else (Inr (), w1))
              | None \<Rightarrow> (Inr (), w1))))"

definition main :: "env \<Rightarrow> args \<Rightarrow> world \<Rightarrow> (exn + unit) \<times> world" where
  "main E a w =
     (if files w (image_arg a) = None
      then (Inl (SystemExit 1),
            w\<lparr>stderr := stderr w @ [''Error: file not found: '' @ image_arg a]\<rparr>)
      else (case analyze_image E w (image_arg a) (ocr_arg a) of
              Inl e \<Rightarrow> (Inl e, w)
            | Inr data \<Rightarrow> write_report E data (Some (out_arg a)) w))"

text \<open>The exit status of the process: \<open>0\<close> on normal return, the argument of
  \<open>sys.exit\<close>, and \<open>1\<close> for any other uncaught exception.\<close>

fun exit_status :: "exn + unit \<Rightarrow> nat" where
  "exit_status (Inr u) = 0"
| "exit_status (Inl (SystemExit n)) = n"
| "exit_status (Inl e) = 1"

section \<open>Specification-side notions\<close>

text \<open>These two definitions follow the specification's words, not the source; the
  normalizer is compared with them. A component has a zero denominator when it is a
  rational object whose denominator is zero, or a (numerator, denominator) pair whose
  denominator converts to zero.\<close>

definition spec_zero_denominator :: "(string \<Rightarrow> real option) \<Rightarrow> pyval \<Rightarrow> bool" where
  "spec_zero_denominator p x =
     (case x of
        PRational n d \<Rightarrow> d = 0
      | PTuple [num, den] \<Rightarrow> py_float p den = Inr 0
      | _ \<Rightarrow> False)"

text \<open>The value the specification gives a component: zero when its conversion fails or
  its denominator is zero, its converted value otherwise.\<close>

definition spec_component :: "(string \<Rightarrow> real option) \<Rightarrow> pyval \<Rightarrow> real" where
  "spec_component p x =
     (case rational_to_float p x of
        None \<Rightarrow> 0
      | Some v \<Rightarrow> (if spec_zero_denominator p x then 0 else v))"

section \<open>Sample inputs\<close>

text \<open>A photo with both GPS axes, a photo whose GPS block holds a latitude triple and
  nothing else, an environment without the optional libraries, environments with an
  OCR engine that reads a given text and a language detector that fails, and a file
  system holding the two photos.\<close>

definition sample_photo :: image where
  "sample_photo =
     \<lparr>img_format = Some ''JPEG'', img_mode = ''RGB'', img_width = 4000, img_height = 3000,
      getexif =
        [(271, PStr ''Canon''),
         (34853, PDict [(1, PStr ''N''),
                        (2, PTuple [PInt 48, PInt 51, PInt 29]),
                        (3, PStr ''E''),
                        (4, PTuple [PInt 2, PInt 17, PInt 40])])]\<rparr>"

definition sample_partial :: image where
  "sample_partial =
     \<lparr>img_format = Some ''JPEG'', img_mode = ''RGB'', img_width = 640, img_height = 480,
      getexif =
        [(34853, PDict [(2, PTuple [PInt 48, PInt 51, PInt 29])])]\<rparr>"

definition sample_decoder :: "string \<Rightarrow> string + image" where
  "sample_decoder contents =
     (if contents = ''photo'' then Inr sample_photo
      else if contents = ''partial'' then Inr sample_partial
      else Inl ''cannot identify image file'')"

definition sample_env :: env where
  "sample_env =
     \<lparr>EXIF_TAGS = [271 \<mapsto> ''Make'', 272 \<mapsto> ''Model'', 306 \<mapsto> ''DateTime'',
                   34853 \<mapsto> ''GPSInfo'', 36867 \<mapsto> ''DateTimeOriginal''],
      GPS_TAGS = [1 \<mapsto> ''GPSLatitudeRef'', 2 \<mapsto> ''GPSLatitude'',
                  3 \<mapsto> ''GPSLongitudeRef'', 4 \<mapsto> ''GPSLongitude''],
      float_of_str = (\<lambda>s. None),
      repr_value = (\<lambda>v. ''<repr>''),
      basename = (\<lambda>p. p),
      abspath = (\<lambda>p. ''/home/user/'' @ p),
      Image_open = sample_decoder,
      exif_transpose = (\<lambda>i. Inr i),
      pytesseract = None,
      detect = None,
      json_dumps = (\<lambda>d. Inr ''{}'')\<rparr>"

definition sample_ocr_env :: "string \<Rightarrow> env" where
  "sample_ocr_env t =
     sample_env\<lparr>pytesseract := Some (\<lambda>i. Inr t),
                detect := Some (\<lambda>s. Inl ''No features in text.'')\<rparr>"

definition sample_world :: world where
  "sample_world =
     \<lparr>files = [''photo.jpg'' \<mapsto> ''photo'', ''partial.jpg'' \<mapsto> ''partial''],
      stdout = [], stderr = []\<rparr>"

definition sample_photo_info :: info where
  "sample_photo_info =
     \<lparr>exif = [(''Make'', PStr ''Canon''),
              (''GPSInfo'',
               PDict [(1, PStr ''N''),
                      (2, PTuple [PInt 48, PInt 51, PInt 29]),
                      (3, PStr ''E''),
                      (4, PTuple [PInt 2, PInt 17, PInt 40])])],
      gps = Some \<lparr>raw = [(''GPSLatitudeRef'', ''N''), (''GPSLatitude'', ''<repr>''),
                        (''GPSLongitudeRef'', ''E''), (''GPSLongitude'', ''<repr>'')],
                  latitude_decimal = Some (48 + 51 / 60 + 29 / 3600),
                  longitude_decimal = Some (2 + 17 / 60 + 40 / 3600)\<rparr>,
      file_rec = \<lparr>file_name = ''photo.jpg'', file_path = ''/home/user/photo.jpg'',
                  file_format = Some ''JPEG'', file_mode = ''RGB'',
                  file_size = \<lparr>width = 4000, height = 3000\<rparr>\<rparr>,
      summary = \<lparr>camera_make = PStr ''Canon'', camera_model = PNone,
                 datetime_original = PNone, has_gps = True\<rparr>,
      ocr = None\<rparr>"

definition sample_partial_info :: info where
  "sample_partial_info =
     \<lparr>exif = [(''GPSInfo'',
               PDict [(2, PTuple [PInt 48, PInt 51, PInt 29])])],
      gps = Some \<lparr>raw = [(''GPSLatitude'', ''<repr>'')],
                  latitude_decimal = None, longitude_decimal = None\<rparr>,
      file_rec = \<lparr>file_name = ''partial.jpg'', file_path = ''/home/user/partial.jpg'',
                  file_format = Some ''JPEG'', file_mode = ''RGB'',
                  file_size = \<lparr>width = 640, height = 480\<rparr>\<rparr>,
      summary = \<lparr>camera_make = PNone, camera_model = PNone,
                 datetime_original = PNone, has_gps = False\<rparr>,
      ocr = None\<rparr>"

section \<open>Auxiliary facts\<close>

lemmas sample_defs = sample_env_def sample_world_def sample_decoder_def sample_photo_def
  sample_partial_def sample_ocr_env_def

lemmas convert_defs = rational_to_float_def rational_to_float_try_def py_truediv_def

lemmas extract_defs = extract_exif_def name_tags_def tag_name_def py_get_def Let_def
  dms_to_decimal_def convert_defs or_zero_def

lemma seq3_truthy: "py_seq_items dms = Some [a, b, c] \<Longrightarrow> py_truthy dms"
  by (cases dms) auto

lemma seq3_len: "py_seq_items dms = Some [a, b, c] \<Longrightarrow> py_len dms = Inr 3"
  by (cases dms) auto

lemma seq3_items:
  assumes "py_seq_items dms = Some [a, b, c]"
  shows "py_getitem dms 0 = Inr a" and "py_getitem dms (Suc 0) = Inr b"
    and "py_getitem dms 2 = Inr c"
  using assms by (cases dms; auto)+

lemma or_zero_Some: "or_zero (Some r) = r"
  by (simp add: or_zero_def)

lemma dms_to_decimal_seq3:
  assumes "py_seq_items dms = Some [a, b, c]"
  shows "dms_to_decimal p dms ref =
     Inr (Some ((if ref = PStr ''S'' \<or> ref = PStr ''W'' then - 1 else 1) *
       (or_zero (rational_to_float p a) + or_zero (rational_to_float p b) / 60
          + or_zero (rational_to_float p c) / 3600)))"
  using seq3_truthy[OF assms] seq3_len[OF assms] seq3_items[OF assms]
  by (simp add: dms_to_decimal_def Let_def)

lemma zero_denominator_or_zero:
  assumes "spec_zero_denominator p x"
  shows "or_zero (rational_to_float p x) = 0"
proof (cases x)
  case (PRational n d)
  with assms show ?thesis
    by (simp add: spec_zero_denominator_def convert_defs or_zero_def)
next
  case (PTuple xs)
  with assms obtain num den where xs: "xs = [num, den]" and den: "py_float p den = Inr 0"
    by (auto simp: spec_zero_denominator_def split: list.splits)
  show ?thesis
    using PTuple xs den
    by (auto simp: convert_defs or_zero_def split: sum.splits)
qed (use assms in \<open>simp_all add: spec_zero_denominator_def\<close>)

lemma or_zero_component: "or_zero (rational_to_float p x) = spec_component p x"
proof (cases "rational_to_float p x")
  case None
  then show ?thesis by (simp add: spec_component_def or_zero_def)
next
  case (Some v)
  show ?thesis
  proof (cases "spec_zero_denominator p x")
    case True
    then show ?thesis using Some zero_denominator_or_zero[OF True]
      by (simp add: spec_component_def)
  next
    case False
    then show ?thesis using Some by (simp add: spec_component_def or_zero_Some)
  qed
qed

lemma name_tags_Nil: "name_tags tags [] = []"
  by (simp add: name_tags_def)

lemma strip_whitespace_only:
  assumes "\<forall>c\<in>set t. isspace c"
  shows "strip t = []"
proof -
  from assms have d: "dropWhile isspace t = []" by (induction t) auto
  show ?thesis unfolding strip_def d by simp
qed

lemma strip_not_whitespace:
  assumes "strip t \<noteq> []"
  shows "\<exists>c\<in>set (strip t). \<not> isspace c"
proof -
  let ?r = "dropWhile isspace (rev (dropWhile isspace t))"
  from assms have ne: "?r \<noteq> []" by (simp add: strip_def)
  then have "\<not> isspace (hd ?r)" by (rule hd_dropWhile)
  moreover from ne have "hd ?r \<in> set ?r" by simp
  ultimately show ?thesis by (auto simp: strip_def)
qed

lemma try_ocr_text:
  assumes "ocr_text (try_ocr E im) = Some s"
  shows "\<exists>t. s = strip t \<and> s \<noteq> []"
  using assms
  by (auto simp: try_ocr_def Let_def split: option.splits sum.splits if_splits)

lemma analyze_sample_photo:
  "analyze_image sample_env sample_world ''photo.jpg'' False = Inr sample_photo_info"
  by (simp add: sample_defs sample_photo_info_def analyze_image_def extract_defs gps_get_def
      py_or_def)

lemma analyze_sample_partial:
  "analyze_image sample_env sample_world ''partial.jpg'' False = Inr sample_partial_info"
  by (simp add: sample_defs sample_partial_info_def analyze_image_def extract_defs gps_get_def
      py_or_def)

section \<open>Coordinate normalizer: properties\<close>

text \<open>
  C1. For a sequence of three components (tuple, list or string) that all convert, and
  any hemisphere reference, \<open>_dms_to_decimal\<close> returns \<open>d + m/60 + s/3600\<close>, negated
  exactly when the reference is \<open>S\<close> or \<open>W\<close>; for \<open>N\<close>, \<open>E\<close> and anything else the sign is
  unchanged. Floats are exact reals here.
\<close>

theorem dms_to_decimal_formula:
  assumes "py_seq_items dms = Some [a, b, c]"
    and "rational_to_float p a = Some d"
    and "rational_to_float p b = Some m"
    and "rational_to_float p c = Some s"
  shows "dms_to_decimal p dms ref =
     Inr (Some (if ref = PStr ''S'' \<or> ref = PStr ''W''
                then - (d + m / 60 + s / 3600) else d + m / 60 + s / 3600))"
  using assms by (simp add: dms_to_decimal_seq3 or_zero_Some)

theorem dms_to_decimal_formula_witness:
  "py_seq_items (PTuple [PInt 48, PRational 51 1, PTuple [PInt 58, PFloat 2]]) =
     Some [PInt 48, PRational 51 1, PTuple [PInt 58, PFloat 2]] \<and>
   rational_to_float (\<lambda>s. None) (PInt 48) = Some 48 \<and>
   rational_to_float (\<lambda>s. None) (PRational 51 1) = Some 51 \<and>
   rational_to_float (\<lambda>s. None) (PTuple [PInt 58, PFloat 2]) = Some 29 \<and>
   dms_to_decimal (\<lambda>s. None) (PTuple [PInt 48, PRational 51 1, PTuple [PInt 58, PFloat 2]])
       (PStr ''S'')
     = Inr (Some (- (48 + 51 / 60 + 29 / 3600))) \<and>
   dms_to_decimal (\<lambda>s. None) (PTuple [PInt 48, PRational 51 1, PTuple [PInt 58, PFloat 2]])
       (PStr ''N'')
     = Inr (Some (48 + 51 / 60 + 29 / 3600))"
proof -
  have a: "rational_to_float (\<lambda>s. None) (PInt 48) = Some 48"
    by (simp add: convert_defs)
  have b: "rational_to_float (\<lambda>s. None) (PRational 51 1) = Some 51"
    by (simp add: convert_defs)
  have c: "rational_to_float (\<lambda>s. None) (PTuple [PInt 58, PFloat 2]) = Some 29"
    by (simp add: convert_defs)
  have i: "py_seq_items (PTuple [PInt 48, PRational 51 1, PTuple [PInt 58, PFloat 2]]) =
     Some [PInt 48, PRational 51 1, PTuple [PInt 58, PFloat 2]]" by simp
  show ?thesis
    using a b c i dms_to_decimal_formula[OF i a b c, of "PStr ''S''"]
      dms_to_decimal_formula[OF i a b c, of "PStr ''N''"]
    by simp
qed

text \<open>
  C3. For a sequence of three components, \<open>_dms_to_decimal\<close> does not raise, and its
  result is the formula over the components' values, where a component whose conversion
  fails, or whose denominator is zero, counts as zero.
\<close>

theorem dms_to_decimal_failed_component_zero:
  assumes "py_seq_items dms = Some [a, b, c]"
  shows "dms_to_decimal p dms ref =
     Inr (Some ((if ref = PStr ''S'' \<or> ref = PStr ''W'' then - 1 else 1) *
       (spec_component p a + spec_component p b / 60 + spec_component p c / 3600)))"
  using dms_to_decimal_seq3[OF assms] by (simp add: or_zero_component)

theorem dms_to_decimal_failed_component_zero_witness:
  "py_seq_items (PList [PRational 48 0, PStr ''x'', PTuple [PInt 7200, PInt 2]]) =
     Some [PRational 48 0, PStr ''x'', PTuple [PInt 7200, PInt 2]] \<and>
   spec_zero_denominator (\<lambda>s. None) (PRational 48 0) \<and>
   rational_to_float (\<lambda>s. None) (PStr ''x'') = None \<and>
   dms_to_decimal (\<lambda>s. None) (PList [PRational 48 0, PStr ''x'', PTuple [PInt 7200, PInt 2]])
       (PStr ''N'') = Inr (Some 1) \<and>
   py_seq_items (PTuple [PInt 10, PTuple [PInt 30, PInt 0], PNone]) =
     Some [PInt 10, PTuple [PInt 30, PInt 0], PNone] \<and>
   spec_zero_denominator (\<lambda>s. None) (PTuple [PInt 30, PInt 0]) \<and>
   rational_to_float (\<lambda>s. None) PNone = None \<and>
   dms_to_decimal (\<lambda>s. None) (PTuple [PInt 10, PTuple [PInt 30, PInt 0], PNone])
       (PStr ''W'') = Inr (Some (- 10))"
proof -
  have i: "py_seq_items (PList [PRational 48 0, PStr ''x'', PTuple [PInt 7200, PInt 2]]) =
     Some [PRational 48 0, PStr ''x'', PTuple [PInt 7200, PInt 2]]" by simp
  have j: "py_seq_items (PTuple [PInt 10, PTuple [PInt 30, PInt 0], PNone]) =
     Some [PInt 10, PTuple [PInt 30, PInt 0], PNone]" by simp
  show ?thesis
    using dms_to_decimal_failed_component_zero[OF i, of "\<lambda>s. None" "PStr ''N''"]
      dms_to_decimal_failed_component_zero[OF j, of "\<lambda>s. None" "PStr ''W''"]
    by (simp add: spec_component_def spec_zero_denominator_def convert_defs)
qed

text \<open>
  C4. When the input is \<open>None\<close>, or a sequence (tuple, list or string) that is empty or
  whose length is not 3, \<open>_dms_to_decimal\<close> returns \<open>None\<close> and does not raise.
\<close>

theorem dms_to_decimal_wrong_length_absent:
  assumes "dms = PNone \<or> (\<exists>xs. py_seq_items dms = Some xs \<and> length xs \<noteq> 3)"
  shows "dms_to_decimal p dms ref = Inr None"
  using assms by (cases dms) (auto simp: dms_to_decimal_def)

theorem dms_to_decimal_wrong_length_absent_witness:
  "dms_to_decimal (\<lambda>s. None) PNone (PStr ''N'') = Inr None \<and>
   py_seq_items (PTuple []) = Some [] \<and>
   dms_to_decimal (\<lambda>s. None) (PTuple []) (PStr ''N'') = Inr None \<and>
   py_seq_items (PList [PInt 48, PInt 51]) = Some [PInt 48, PInt 51] \<and>
   dms_to_decimal (\<lambda>s. None) (PList [PInt 48, PInt 51]) (PStr ''S'') = Inr None \<and>
   py_seq_items (PTuple [PInt 1, PInt 2, PInt 3, PInt 4]) = Some [PInt 1, PInt 2, PInt 3, PInt 4] \<and>
   dms_to_decimal (\<lambda>s. None) (PTuple [PInt 1, PInt 2, PInt 3, PInt 4]) (PStr ''E'') = Inr None"
proof -
  have n: "PNone = PNone \<or> (\<exists>xs. py_seq_items PNone = Some xs \<and> length xs \<noteq> 3)"
    by simp
  have e: "PTuple [] = PNone \<or> (\<exists>xs. py_seq_items (PTuple []) = Some xs \<and> length xs \<noteq> 3)"
    by simp
  have s: "PList [PInt 48, PInt 51] = PNone \<or>
      (\<exists>xs. py_seq_items (PList [PInt 48, PInt 51]) = Some xs \<and> length xs \<noteq> 3)"
    by simp
  have l: "PTuple [PInt 1, PInt 2, PInt 3, PInt 4] = PNone \<or>
      (\<exists>xs. py_seq_items (PTuple [PInt 1, PInt 2, PInt 3, PInt 4]) = Some xs \<and> length xs \<noteq> 3)"
    by simp
  show ?thesis
    using dms_to_decimal_wrong_length_absent[OF n, of "\<lambda>s. None" "PStr ''N''"]
      dms_to_decimal_wrong_length_absent[OF e, of "\<lambda>s. None" "PStr ''N''"]
      dms_to_decimal_wrong_length_absent[OF s, of "\<lambda>s. None" "PStr ''S''"]
      dms_to_decimal_wrong_length_absent[OF l, of "\<lambda>s. None" "PStr ''E''"]
    by simp
qed

section \<open>Metadata extractor: properties\<close>

text \<open>
  C2. In every result of \<open>analyze_image\<close>, the summary field \<open>has_gps\<close> is true exactly
  when the \<open>gps\<close> record holds both \<open>latitude_decimal\<close> and \<open>longitude_decimal\<close> with a
  value other than \<open>None\<close>.
\<close>

theorem has_gps_iff_both_decimals:
  assumes "analyze_image E w path do_ocr = Inr d"
  shows "has_gps (summary d) =
     (\<exists>g lat lon. gps d = Some g \<and> latitude_decimal g = Some lat \<and>
                  longitude_decimal g = Some lon)"
  using assms
  by (auto simp: analyze_image_def gps_get_def Let_def split: option.splits sum.splits)

theorem has_gps_iff_both_decimals_witness:
  "analyze_image sample_env sample_world ''photo.jpg'' False = Inr sample_photo_info \<and>
   has_gps (summary sample_photo_info) \<and>
   (\<exists>g lat lon. gps sample_photo_info = Some g \<and> latitude_decimal g = Some lat \<and>
                longitude_decimal g = Some lon) \<and>
   analyze_image sample_env sample_world ''partial.jpg'' False = Inr sample_partial_info \<and>
   \<not> has_gps (summary sample_partial_info) \<and>
   \<not> (\<exists>g lat lon. gps sample_partial_info = Some g \<and> latitude_decimal g = Some lat \<and>
                  longitude_decimal g = Some lon)"
proof -
  have full: "has_gps (summary sample_photo_info)"
    by (simp add: sample_photo_info_def)
  have part: "\<not> has_gps (summary sample_partial_info)"
    by (simp add: sample_partial_info_def)
  show ?thesis
    using full part analyze_sample_photo analyze_sample_partial
      has_gps_iff_both_decimals[OF analyze_sample_photo]
      has_gps_iff_both_decimals[OF analyze_sample_partial]
    by simp
qed

text \<open>
  C5. Let the image have a GPSInfo mapping, and let \<open>gps_named\<close> be its entries under
  their names. If the latitude triple or the latitude reference is missing there, every
  result of \<open>extract_exif\<close> has a \<open>gps\<close> record whose \<open>latitude_decimal\<close> is \<open>None\<close>; the
  same holds for the longitude; and when both axes are partial in this way,
  \<open>extract_exif\<close> does return, with both decimal fields \<open>None\<close>.
\<close>

theorem extract_exif_partial_axis_absent:
  assumes gi: "py_get (name_tags (EXIF_TAGS E) (getexif im)) ''GPSInfo'' = PDict gps_items"
    and gn: "gps_named = name_tags (GPS_TAGS E) gps_items"
  shows
    "(py_get gps_named ''GPSLatitude'' = PNone \<or> py_get gps_named ''GPSLatitudeRef'' = PNone
        \<longrightarrow> (\<forall>r. extract_exif E im = Inr r
               \<longrightarrow> (\<exists>g. gps r = Some g \<and> latitude_decimal g = None))) \<and>
     (py_get gps_named ''GPSLongitude'' = PNone \<or> py_get gps_named ''GPSLongitudeRef'' = PNone
        \<longrightarrow> (\<forall>r. extract_exif E im = Inr r
               \<longrightarrow> (\<exists>g. gps r = Some g \<and> longitude_decimal g = None))) \<and>
     ((py_get gps_named ''GPSLatitude'' = PNone \<or> py_get gps_named ''GPSLatitudeRef'' = PNone) \<and>
      (py_get gps_named ''GPSLongitude'' = PNone \<or> py_get gps_named ''GPSLongitudeRef'' = PNone)
        \<longrightarrow> (\<exists>r g. extract_exif E im = Inr r \<and> gps r = Some g \<and>
                   latitude_decimal g = None \<and> longitude_decimal g = None))"
proof -
  have ne: "getexif im \<noteq> []"
    using gi by (auto simp: name_tags_Nil py_get_def)
  show ?thesis
    using ne gi gn
    by (auto simp: extract_exif_def Let_def split: sum.splits if_splits)
qed

theorem extract_exif_partial_axis_absent_witness:
  "py_get (name_tags (EXIF_TAGS sample_env) (getexif sample_partial)) ''GPSInfo'' =
     PDict [(2, PTuple [PInt 48, PInt 51, PInt 29])] \<and>
   py_get (name_tags (GPS_TAGS sample_env)
       [(2, PTuple [PInt 48, PInt 51, PInt 29])]) ''GPSLatitude''
     = PTuple [PInt 48, PInt 51, PInt 29] \<and>
   py_get (name_tags (GPS_TAGS sample_env)
       [(2, PTuple [PInt 48, PInt 51, PInt 29])]) ''GPSLatitudeRef''
     = PNone \<and>
   py_get (name_tags (GPS_TAGS sample_env)
       [(2, PTuple [PInt 48, PInt 51, PInt 29])]) ''GPSLongitude''
     = PNone \<and>
   (\<exists>r g. extract_exif sample_env sample_partial = Inr r \<and> gps r = Some g \<and>
          latitude_decimal g = None \<and> longitude_decimal g = None)"
proof -
  have gi: "py_get (name_tags (EXIF_TAGS sample_env) (getexif sample_partial)) ''GPSInfo'' =
     PDict [(2, PTuple [PInt 48, PInt 51, PInt 29])]"
    by (simp add: sample_defs name_tags_def tag_name_def py_get_def)
  have names: "name_tags (GPS_TAGS sample_env)
       [(2, PTuple [PInt 48, PInt 51, PInt 29])] =
     [(''GPSLatitude'', PTuple [PInt 48, PInt 51, PInt 29])]"
    by (simp add: sample_defs name_tags_def tag_name_def)
  show ?thesis
    using gi extract_exif_partial_axis_absent[OF gi names [symmetric]]
    by (simp add: names py_get_def)
qed

section \<open>OCR adapter: properties\<close>

text \<open>
  C6. When the OCR engine is unavailable, \<open>try_ocr\<close> returns text and language \<open>None\<close>
  and the note \<open>pytesseract not installed; skip OCR.\<close>; and a run of \<open>analyze_image\<close>
  that requests OCR fails or succeeds as the run without OCR does, its result differing
  only by this \<open>ocr\<close> entry.
\<close>

theorem try_ocr_engine_unavailable:
  assumes "pytesseract E = None"
  shows "try_ocr E im =
       \<lparr>ocr_text = None, ocr_language = None,
        ocr_note = Some ''pytesseract not installed; skip OCR.''\<rparr> \<and>
     analyze_image E w path True =
       map_sum id
         (\<lambda>d. d\<lparr>ocr := Some \<lparr>ocr_text = None, ocr_language = None,
                              ocr_note = Some ''pytesseract not installed; skip OCR.''\<rparr>\<rparr>)
         (analyze_image E w path False)"
  using assms
  by (auto simp: try_ocr_def analyze_image_def Let_def split: option.splits sum.splits)

theorem try_ocr_engine_unavailable_witness:
  "pytesseract sample_env = None \<and>
   try_ocr sample_env sample_photo =
     \<lparr>ocr_text = None, ocr_language = None,
      ocr_note = Some ''pytesseract not installed; skip OCR.''\<rparr> \<and>
   analyze_image sample_env sample_world ''photo.jpg'' True =
     Inr (sample_photo_info\<lparr>ocr := Some \<lparr>ocr_text = None, ocr_language = None,
            ocr_note = Some ''pytesseract not installed; skip OCR.''\<rparr>\<rparr>)"
proof -
  have h: "pytesseract sample_env = None" by (simp add: sample_env_def)
  show ?thesis
    using h try_ocr_engine_unavailable[OF h, of sample_photo sample_world "''photo.jpg''"]
    by (simp add: analyze_sample_photo)
qed

text \<open>
  C8. When the engine is available and the text it extracts is empty or consists of
  whitespace only, \<open>try_ocr\<close> reports the text as \<open>None\<close> (with language and note \<open>None\<close>
  too); and whatever the run, a reported text is never empty and never whitespace only.
\<close>

theorem try_ocr_whitespace_text_absent:
  "(pytesseract E = Some image_to_string \<and> exif_transpose E im = Inr img \<and>
    image_to_string img = Inr t \<and> (\<forall>c\<in>set t. isspace c)
      \<longrightarrow> try_ocr E im = \<lparr>ocr_text = None, ocr_language = None, ocr_note = None\<rparr>) \<and>
   (\<forall>s. ocr_text (try_ocr E im) = Some s \<longrightarrow> s \<noteq> [] \<and> (\<exists>c\<in>set s. \<not> isspace c))"
proof (intro conjI impI allI)
  assume "pytesseract E = Some image_to_string \<and> exif_transpose E im = Inr img \<and>
    image_to_string img = Inr t \<and> (\<forall>c\<in>set t. isspace c)"
  then show "try_ocr E im = \<lparr>ocr_text = None, ocr_language = None, ocr_note = None\<rparr>"
    by (simp add: try_ocr_def strip_whitespace_only)
next
  fix s assume "ocr_text (try_ocr E im) = Some s"
  then obtain t where "s = strip t" "s \<noteq> []" using try_ocr_text by blast
  then show "s \<noteq> []" "\<exists>c\<in>set s. \<not> isspace c" using strip_not_whitespace by auto
qed

theorem try_ocr_whitespace_text_absent_witness:
  "pytesseract (sample_ocr_env [CHR 0x20, CHR 0x0A, CHR 0x09]) =
     Some (\<lambda>i. Inr [CHR 0x20, CHR 0x0A, CHR 0x09]) \<and>
   exif_transpose (sample_ocr_env [CHR 0x20, CHR 0x0A, CHR 0x09]) sample_photo = Inr sample_photo \<and>
   list_all isspace [CHR 0x20, CHR 0x0A, CHR 0x09] \<and>
   try_ocr (sample_ocr_env [CHR 0x20, CHR 0x0A, CHR 0x09]) sample_photo =
     \<lparr>ocr_text = None, ocr_language = None, ocr_note = None\<rparr>"
proof -
  have p: "pytesseract (sample_ocr_env [CHR 0x20, CHR 0x0A, CHR 0x09]) =
       Some (\<lambda>i. Inr [CHR 0x20, CHR 0x0A, CHR 0x09])"
    by (simp add: sample_ocr_env_def)
  have x: "exif_transpose (sample_ocr_env [CHR 0x20, CHR 0x0A, CHR 0x09]) sample_photo
       = Inr sample_photo"
    by (simp add: sample_ocr_env_def sample_env_def)
  have a: "\<forall>c\<in>set [CHR 0x20, CHR 0x0A, CHR 0x09]. isspace c"
    by (simp add: isspace_def)
  have r: "try_ocr (sample_ocr_env [CHR 0x20, CHR 0x0A, CHR 0x09]) sample_photo =
     \<lparr>ocr_text = None, ocr_language = None, ocr_note = None\<rparr>"
    using try_ocr_whitespace_text_absent[of "sample_ocr_env [CHR 0x20, CHR 0x0A, CHR 0x09]"
        "\<lambda>i. Inr [CHR 0x20, CHR 0x0A, CHR 0x09]" sample_photo sample_photo
        "[CHR 0x20, CHR 0x0A, CHR 0x09]", THEN conjunct1, THEN mp,
        OF conjI[OF p conjI[OF x conjI[OF refl a]]]] .
  have l: "list_all isspace [CHR 0x20, CHR 0x0A, CHR 0x09]"
    by (simp add: isspace_def)
  show ?thesis
    by (rule conjI[OF p conjI[OF x conjI[OF l r]]])
qed

text \<open>
  C10. When the engine extracts a text that is not empty after stripping, the language
  detector is available, and its call raises, \<open>try_ocr\<close> returns the stripped text with
  language \<open>None\<close> and note \<open>None\<close>: no diagnostic is recorded.
\<close>

theorem try_ocr_detect_failure_no_note:
  assumes "pytesseract E = Some image_to_string"
    and "exif_transpose E im = Inr img"
    and "image_to_string img = Inr t"
    and "strip t \<noteq> []"
    and "detect E = Some det"
    and "det (strip t) = Inl e"
  shows "try_ocr E im = \<lparr>ocr_text = Some (strip t), ocr_language = None, ocr_note = None\<rparr>"
  using assms by (simp add: try_ocr_def Let_def)

theorem try_ocr_detect_failure_no_note_witness:
  "strip '' 2024 '' = ''2024'' \<and>
   detect (sample_ocr_env '' 2024 '') = Some (\<lambda>s. Inl ''No features in text.'') \<and>
   try_ocr (sample_ocr_env '' 2024 '') sample_photo =
     \<lparr>ocr_text = Some ''2024'', ocr_language = None, ocr_note = None\<rparr>"
proof -
  have s: "strip '' 2024 '' = ''2024''"
    by (simp add: strip_def isspace_def)
  have ne: "strip '' 2024 '' \<noteq> []"
    by (simp add: s)
  have p: "pytesseract (sample_ocr_env '' 2024 '') = Some (\<lambda>i. Inr '' 2024 '')"
    by (simp add: sample_ocr_env_def)
  have x: "exif_transpose (sample_ocr_env '' 2024 '') sample_photo = Inr sample_photo"
    by (simp add: sample_ocr_env_def sample_env_def)
  have r: "(\<lambda>i::image. (Inr '' 2024 '' :: string + string)) sample_photo = Inr '' 2024 ''"
    by simp
  have d: "detect (sample_ocr_env '' 2024 '') = Some (\<lambda>s. Inl ''No features in text.'')"
    by (simp add: sample_ocr_env_def)
  have f: "(\<lambda>s::string. (Inl ''No features in text.'' :: string + string)) (strip '' 2024 '')
      = Inl ''No features in text.''"
    by simp
  show ?thesis
    using s d try_ocr_detect_failure_no_note[OF p x r ne d f]
    by simp
qed

section \<open>Entry point and report: properties\<close>

text \<open>
  C7. When the image path does not exist, \<open>main\<close> ends in \<open>sys.exit(1)\<close>, so with exit
  status 1, after printing one error line to standard error, and the files are left as
  they were (so nothing is written to the output path), as is standard output.
\<close>

theorem main_missing_image_exit_1:
  assumes "files w (image_arg a) = None"
  shows "fst (main E a w) = Inl (SystemExit 1) \<and>
     exit_status (fst (main E a w)) = 1 \<and>
     stderr (snd (main E a w)) = stderr w @ [''Error: file not found: '' @ image_arg a] \<and>
     files (snd (main E a w)) = files w \<and>
     stdout (snd (main E a w)) = stdout w"
  using assms by (simp add: main_def)

theorem main_missing_image_exit_1_witness:
  "files sample_world ''missing.jpg'' = None \<and>
   exit_status (fst (main sample_env
      \<lparr>image_arg = ''missing.jpg'', ocr_arg = False, out_arg = ''output.txt''\<rparr> sample_world)) = 1 \<and>
   stderr (snd (main sample_env
      \<lparr>image_arg = ''missing.jpg'', ocr_arg = False, out_arg = ''output.txt''\<rparr> sample_world))
     = [''Error: file not found: missing.jpg''] \<and>
   files (snd (main sample_env
      \<lparr>image_arg = ''missing.jpg'', ocr_arg = False, out_arg = ''output.txt''\<rparr> sample_world))
      ''output.txt'' = None"
proof -
  have h: "files sample_world
      (image_arg \<lparr>image_arg = ''missing.jpg'', ocr_arg = False, out_arg = ''output.txt''\<rparr>) = None"
    by (simp add: sample_world_def)
  show ?thesis
    using h main_missing_image_exit_1[OF h, of sample_env]
    by (simp add: sample_world_def)
qed

text \<open>
  C9, as the code has it. The report's thirteenth line, right after the
  \<open>GPS present\<close> line, is the line \<open>- GPS (decimal): <latitude>, <longitude>\<close> exactly when
  the \<open>gps\<close> record of the result is not empty, that is when the image had a GPSInfo
  mapping; each coordinate is printed as its value, or as \<open>None\<close> when it is absent.
  When the \<open>gps\<close> record is empty there is no such line at that place.
\<close>

theorem report_gps_line_iff_gps_record:
  "((12 < length (report_lines E data) \<and>
       take 17 (report_lines E data ! 12) = ''- GPS (decimal): '') = (gps data \<noteq> None)) \<and>
   (\<forall>g. gps data = Some g \<longrightarrow>
      report_lines E data ! 12 =
        ''- GPS (decimal): '' @ str_float_opt E (latitude_decimal g) @ '', ''
          @ str_float_opt E (longitude_decimal g))"
  by (cases "gps data"; cases "ocr data") (simp_all add: report_lines_def Let_def nth_append)

theorem report_gps_line_iff_gps_record_witness:
  "gps sample_photo_info =
     Some \<lparr>raw = [(''GPSLatitudeRef'', ''N''), (''GPSLatitude'', ''<repr>''),
                  (''GPSLongitudeRef'', ''E''), (''GPSLongitude'', ''<repr>'')],
           latitude_decimal = Some (48 + 51 / 60 + 29 / 3600),
           longitude_decimal = Some (2 + 17 / 60 + 40 / 3600)\<rparr> \<and>
   report_lines sample_env sample_photo_info ! 12 = ''- GPS (decimal): <repr>, <repr>''"
proof -
  have g: "gps sample_photo_info =
     Some \<lparr>raw = [(''GPSLatitudeRef'', ''N''), (''GPSLatitude'', ''<repr>''),
                  (''GPSLongitudeRef'', ''E''), (''GPSLongitude'', ''<repr>'')],
           latitude_decimal = Some (48 + 51 / 60 + 29 / 3600),
           longitude_decimal = Some (2 + 17 / 60 + 40 / 3600)\<rparr>"
    by (simp add: sample_photo_info_def)
  show ?thesis
    using g report_gps_line_iff_gps_record[of sample_env sample_photo_info]
    by (simp add: str_float_opt_def sample_env_def)
qed

text \<open>
  C9, as stated, fails: the photo whose GPS block holds a latitude triple and nothing
  else has no decimal coordinate on either axis, and its report still carries the line,
  as \<open>- GPS (decimal): None, None\<close>.
\<close>

theorem report_gps_line_without_coordinates:
  "analyze_image sample_env sample_world ''partial.jpg'' False = Inr sample_partial_info \<and>
   gps_get latitude_decimal (gps sample_partial_info) = None \<and>
   gps_get longitude_decimal (gps sample_partial_info) = None \<and>
   files (snd (main sample_env
       \<lparr>image_arg = ''partial.jpg'', ocr_arg = False, out_arg = ''output.txt''\<rparr> sample_world))
     ''output.txt'' = Some (join [CHR 0x0A] (report_lines sample_env sample_partial_info)) \<and>
   report_lines sample_env sample_partial_info =
     [''# Image Metadata Report: partial.jpg'',
      '''',
      ''## File'',
      ''- Path: /home/user/partial.jpg'',
      ''- Format: JPEG'',
      ''- Mode: RGB'',
      ''- Size: 640x480'',
      '''',
      ''## Summary'',
      ''- Camera: None None'',
      ''- Date/Time: None'',
      ''- GPS present: False'',
      ''- GPS (decimal): None, None'']"
proof -
  have w: "files (snd (main sample_env
       \<lparr>image_arg = ''partial.jpg'', ocr_arg = False, out_arg = ''output.txt''\<rparr> sample_world))
     ''output.txt'' = Some (join [CHR 0x0A] (report_lines sample_env sample_partial_info))"
    by (simp add: main_def analyze_sample_partial write_report_def Let_def)
      (simp add: sample_env_def sample_world_def)
  have g: "gps_get latitude_decimal (gps sample_partial_info) = None \<and>
     gps_get longitude_decimal (gps sample_partial_info) = None"
    by (simp add: sample_partial_info_def gps_get_def)
  have s480: "str_nat 480 = ''480''" and s640: "str_nat 640 = ''640''"
    by code_simp+
  have c: "strip ''- Camera: None None'' = ''- Camera: None None''"
    by (simp add: strip_def isspace_def)
  have r: "report_lines sample_env sample_partial_info =
     [''# Image Metadata Report: partial.jpg'', '''', ''## File'',
      ''- Path: /home/user/partial.jpg'', ''- Format: JPEG'', ''- Mode: RGB'',
      ''- Size: 640x480'', '''', ''## Summary'', ''- Camera: None None'',
      ''- Date/Time: None'', ''- GPS present: False'', ''- GPS (decimal): None, None'']"
    by (simp add: sample_partial_info_def report_lines_def str_float_opt_def str_opt_def
        Let_def s480 s640 c)
  show ?thesis
    using analyze_sample_partial w g r by simp
qed

end
